theory Spec2Isabelle
  imports Complex_Main
begin

section \<open>Geodesic distance\<close>

text \<open>
  Both \<^verbatim>\<open>routes/geo.js\<close> and the tourist router carry the same helper, character for
  character:
  \<^verbatim>\<open>
  function calculateDistance(lat1, lng1, lat2, lng2) {
      const R = 6371e3;
      const p1 = lat1 * Math.PI / 180;
      const p2 = lat2 * Math.PI / 180;
      const dp = (lat2 - lat1) * Math.PI / 180;
      const dl = (lng2 - lng1) * Math.PI / 180;
      const a = Math.sin(dp/2) * Math.sin(dp/2) +
                Math.cos(p1) * Math.cos(p2) * Math.sin(dl/2) * Math.sin(dl/2);
      const c = 2 * Math.atan2(Math.sqrt(a), Math.sqrt(1-a));
      return R * c;
  }
  \<close>
  JavaScript numbers are read as real numbers: the model is the formula the code writes
  down, without the rounding of IEEE doubles. Over the reals the term \<open>a\<close> never leaves
  the interval from 0 to 1. In double arithmetic it can round to a value above 1 for a
  pair of nearly antipodal positions; then \<^verbatim>\<open>Math.sqrt(1-a)\<close> and the result are
  \<^verbatim>\<open>NaN\<close>, which this model does not show.
\<close>

definition atan2 :: "real \<Rightarrow> real \<Rightarrow> real" where
  \<comment> \<open>\<^verbatim>\<open>Math.atan2(y, x)\<close>: the angle of the point \<open>(x, y)\<close>, in \<open>(-pi, pi]\<close>.\<close>
  "atan2 y x =
     (if 0 < x then arctan (y / x)
      else if x < 0 then (if 0 \<le> y then arctan (y / x) + pi else arctan (y / x) - pi)
      else if 0 < y then pi / 2
      else if y < 0 then - (pi / 2)
      else 0)"

definition calculateDistance :: "real \<Rightarrow> real \<Rightarrow> real \<Rightarrow> real \<Rightarrow> real" where
  "calculateDistance lat1 lng1 lat2 lng2 =
     (let R = 6371000;
          phi1 = lat1 * pi / 180;
          phi2 = lat2 * pi / 180;
          dphi = (lat2 - lat1) * pi / 180;
          dlam = (lng2 - lng1) * pi / 180;
          a = sin (dphi / 2) * sin (dphi / 2) +
              cos phi1 * cos phi2 * sin (dlam / 2) * sin (dlam / 2);
          c = 2 * atan2 (sqrt a) (sqrt (1 - a))
      in R * c)"

section \<open>Documents, store and requests\<close>

text \<open>
  The route handlers answer with an HTTP status and a message. The four failure statuses
  the handlers use are the constructors of \<open>error\<close>, each with the message of the
  response: 400 (the specification's validation error), 403 (permission error),
  404 (not found) and 500 (what the \<^verbatim>\<open>catch\<close> block of every handler answers
  when anything in its \<^verbatim>\<open>try\<close> block throws).
\<close>

datatype error =
    BadRequest string
  | Forbidden string
  | NotFound string
  | ServerError string

type_synonym oid = nat

text \<open>\<^verbatim>\<open>req.user\<close>, as the \<^verbatim>\<open>auth\<close> middleware leaves it from the token.\<close>

record actor =
  userId :: oid
  userType :: string

record latlng =
  lat :: real
  lng :: real

record location = latlng +
  address :: "string option"

record user =
  u_id :: oid
  u_name :: string

record tourist =
  t_id :: oid
  t_userId :: oid
  t_status :: string
  t_currentLocation :: "(latlng \<times> int) option"
  t_safetyScore :: int

record authority =
  au_id :: oid
  au_userId :: oid
  au_isOnDuty :: bool
  au_department :: string

record geofence =
  g_id :: oid
  g_name :: string
  g_description :: "string option"
  g_type :: string
  g_center :: latlng
  g_radius :: real
  g_region :: string
  g_createdBy :: oid
  g_isActive :: bool
  g_updatedAt :: int

record alert =
  a_id :: oid
  a_type :: string
  a_touristId :: "oid option"
  a_location :: location
  a_message :: string
  a_description :: "string option"
  a_severity :: string
  a_status :: string
  a_authorityId :: "oid option"
  a_createdAt :: int
  a_updatedAt :: int

record incident =
  i_id :: oid
  i_reporterId :: oid
  i_type :: string
  i_title :: string
  i_description :: string
  i_location :: location
  i_severity :: string
  i_witnesses :: "string list"
  i_evidences :: "string list"
  i_assignedOfficer :: "oid option"

text \<open>
  The documents carry the fields the handlers read or write; the reference number of an
  incident (\<^verbatim>\<open>eFIRNumber\<close>) is produced by the model of the incident, outside the
  handlers, and is left out.

  The store: one list of documents per collection, in insertion order, and the next
  fresh \<^verbatim>\<open>_id\<close>. The schemas of the models are not part of the sources, so a write
  of well-typed values is taken to succeed; the handlers' own checks are all modelled.
\<close>

record db =
  users :: "user list"
  tourists :: "tourist list"
  authorities :: "authority list"
  geoFences :: "geofence list"
  alerts :: "alert list"
  incidents :: "incident list"
  next_oid :: oid

text \<open>
  The wall clock a handler reads: \<^verbatim>\<open>Date.now()\<close> in milliseconds, and the offset of
  local time that \<^verbatim>\<open>getHours()\<close> applies to it.
\<close>

record clock =
  now :: int
  tzOffset :: int

definition getHours :: "clock \<Rightarrow> int" where
  "getHours c = ((now c + tzOffset c) div 3600000) mod 24"

text \<open>
  A field of a JSON body is absent (\<open>None\<close>) or carries a value. The fields the
  handlers test and parse hold \<^verbatim>\<open>null\<close>, a boolean, a number or a string; arrays and
  objects in such a field are outside the model. A number is the value of the double it
  denotes, read as a real. The test \<^verbatim>\<open>!v\<close> holds for an absent field,
  \<^verbatim>\<open>null\<close>, \<^verbatim>\<open>false\<close>, the number 0 and the empty string, and for nothing
  else: the string \<^verbatim>\<open>"0"\<close> is not falsy.
\<close>

datatype json = JNull | JBool bool | JNum real | JStr string

definition falsy :: "json option \<Rightarrow> bool" where
  "falsy v =
     (case v of
        None \<Rightarrow> True
      | Some JNull \<Rightarrow> True
      | Some (JBool b) \<Rightarrow> \<not> b
      | Some (JNum x) \<Rightarrow> x = 0
      | Some (JStr s) \<Rightarrow> s = [])"

text \<open>A field typed as a string: absent or a string.\<close>

definition falsy_str :: "string option \<Rightarrow> bool" where
  "falsy_str v = (v = None \<or> v = Some [])"

text \<open>
  The numeric strings of JavaScript. \<^verbatim>\<open>parseFloat\<close> skips leading white space and
  reads the longest prefix that is a decimal literal (sign, digits, fraction, exponent);
  \<^verbatim>\<open>parseInt\<close> skips leading white space and reads a sign, an optional
  \<^verbatim>\<open>0x\<close> and the digits that follow; the conversion \<^verbatim>\<open>Number(s)\<close>, which the
  arithmetic operators apply to a string, trims both ends and wants the whole of the rest
  to be a decimal, hexadecimal, octal or binary literal, the empty string counting as 0.
  A result \<open>None\<close> stands for \<^verbatim>\<open>NaN\<close>. White space is the ASCII white space;
  the value \<^verbatim>\<open>Infinity\<close> is not a real number and is answered \<open>None\<close> as well;
  values are exact, not rounded to doubles.
\<close>

definition is_space :: "char \<Rightarrow> bool" where
  "is_space c = (c \<in> set [CHR 0x09, CHR 0x0A, CHR 0x0B, CHR 0x0C, CHR 0x0D, CHR '' ''])"

definition digit_value :: "char \<Rightarrow> nat option" where
  "digit_value c =
     map_of
       [(CHR ''0'', 0), (CHR ''1'', 1), (CHR ''2'', 2), (CHR ''3'', 3), (CHR ''4'', 4),
        (CHR ''5'', 5), (CHR ''6'', 6), (CHR ''7'', 7), (CHR ''8'', 8), (CHR ''9'', 9),
        (CHR ''a'', 10), (CHR ''b'', 11), (CHR ''c'', 12), (CHR ''d'', 13), (CHR ''e'', 14),
        (CHR ''f'', 15), (CHR ''A'', 10), (CHR ''B'', 11), (CHR ''C'', 12), (CHR ''D'', 13),
        (CHR ''E'', 14), (CHR ''F'', 15)] c"

definition radix_digit :: "nat \<Rightarrow> char \<Rightarrow> nat option" where
  "radix_digit r c =
     (case digit_value c of None \<Rightarrow> None | Some d \<Rightarrow> if d < r then Some d else None)"

fun take_digits :: "nat \<Rightarrow> string \<Rightarrow> nat list \<times> string" where
  "take_digits r [] = ([], [])"
| "take_digits r (c # cs) =
     (case radix_digit r c of
        None \<Rightarrow> ([], c # cs)
      | Some d \<Rightarrow> (d # fst (take_digits r cs), snd (take_digits r cs)))"

definition digits_value :: "nat \<Rightarrow> nat list \<Rightarrow> nat" where
  "digits_value r ds = foldl (\<lambda>n d. r * n + d) 0 ds"

definition take_sign :: "string \<Rightarrow> int \<times> string" where
  "take_sign s =
     (case s of
        [] \<Rightarrow> (1, s)
      | c # cs \<Rightarrow> if c = CHR ''-'' then (- 1, cs) else if c = CHR ''+'' then (1, cs) else (1, s))"

definition take_exponent :: "string \<Rightarrow> int \<times> string" where
  "take_exponent s =
     (case s of
        [] \<Rightarrow> (0, s)
      | c # cs \<Rightarrow>
          if c = CHR ''e'' \<or> c = CHR ''E''
          then (case take_digits 10 (snd (take_sign cs)) of
                  ([], _) \<Rightarrow> (0, s)
                | (d # ds, rest) \<Rightarrow> (fst (take_sign cs) * int (digits_value 10 (d # ds)), rest))
          else (0, s))"

definition take_fraction :: "string \<Rightarrow> nat list \<times> string" where
  "take_fraction s =
     (case s of
        [] \<Rightarrow> ([], s)
      | c # cs \<Rightarrow> if c = CHR ''.'' then take_digits 10 cs else ([], s))"

definition scale10 :: "real \<Rightarrow> int \<Rightarrow> real" where
  "scale10 m e = (if 0 \<le> e then m * 10 ^ nat e else m / 10 ^ nat (- e))"

definition take_decimal :: "string \<Rightarrow> (real \<times> string) option" where
  "take_decimal s =
     (let whole = take_digits 10 s;
          frac = take_fraction (snd whole)
      in if fst whole = [] \<and> fst frac = [] then None
         else
           (let ex = take_exponent (snd frac)
            in Some (scale10 (real (digits_value 10 (fst whole)) +
                              real (digits_value 10 (fst frac)) / 10 ^ length (fst frac))
                       (fst ex),
                     snd ex)))"

definition parseFloat_string :: "string \<Rightarrow> real option" where
  "parseFloat_string s =
     (let signed = take_sign (dropWhile is_space s)
      in map_option (\<lambda>r. of_int (fst signed) * fst r) (take_decimal (snd signed)))"

text \<open>
  \<^verbatim>\<open>parseInt\<close> of a number reads the integer digits at the head of its decimal
  string. For a magnitude from \<open>10\<^sup>-\<^sup>6\<close> up to \<open>10\<^sup>2\<^sup>1\<close> that is truncation towards
  zero; outside, the string is in exponent notation and the digits read are its leading
  digit.
\<close>

definition parseInt_number :: "real \<Rightarrow> real" where
  "parseInt_number x =
     (if x = 0 then 0
      else if 1 / 10 ^ 6 \<le> \<bar>x\<bar> \<and> \<bar>x\<bar> < 10 ^ 21
      then (if 0 \<le> x then of_int \<lfloor>x\<rfloor> else of_int \<lceil>x\<rceil>)
      else sgn x * of_int \<lfloor>\<bar>x\<bar> / 10 powr of_int \<lfloor>log 10 \<bar>x\<bar>\<rfloor>\<rfloor>)"

definition parseInt_string :: "string \<Rightarrow> real option" where
  "parseInt_string s =
     (let signed = take_sign (dropWhile is_space s);
          hex = (take 2 (snd signed) \<in> set [''0x'', ''0X'']);
          ds = fst (take_digits (if hex then 16 else 10)
                 (if hex then drop 2 (snd signed) else snd signed))
      in if ds = [] then None
         else Some (of_int (fst signed) * real (digits_value (if hex then 16 else 10) ds)))"

definition radix_literal :: "nat \<Rightarrow> string \<Rightarrow> real option" where
  "radix_literal r s =
     (case take_digits r s of
        (d # ds, []) \<Rightarrow> Some (real (digits_value r (d # ds)))
      | _ \<Rightarrow> None)"

definition toNumber_string :: "string \<Rightarrow> real option" where
  "toNumber_string s =
     (let t = rev (dropWhile is_space (rev (dropWhile is_space s)))
      in if t = [] then Some 0
         else if take 2 t \<in> set [''0x'', ''0X''] then radix_literal 16 (drop 2 t)
         else if take 2 t \<in> set [''0o'', ''0O''] then radix_literal 8 (drop 2 t)
         else if take 2 t \<in> set [''0b'', ''0B''] then radix_literal 2 (drop 2 t)
         else (case take_decimal (snd (take_sign t)) of
                 Some (m, []) \<Rightarrow> Some (of_int (fst (take_sign t)) * m)
               | _ \<Rightarrow> None))"

text \<open>
  The three conversions on a field. \<^verbatim>\<open>parseFloat\<close> and \<^verbatim>\<open>parseInt\<close> turn
  their argument into a string first, so \<^verbatim>\<open>null\<close>, a boolean and an absent field
  give \<^verbatim>\<open>NaN\<close>, and \<^verbatim>\<open>parseFloat\<close> of a number is that number.
\<close>

definition parseFloat :: "json option \<Rightarrow> real option" where
  "parseFloat v =
     (case v of
        Some (JNum x) \<Rightarrow> Some x
      | Some (JStr s) \<Rightarrow> parseFloat_string s
      | _ \<Rightarrow> None)"

definition parseInt :: "json option \<Rightarrow> real option" where
  "parseInt v =
     (case v of
        Some (JNum x) \<Rightarrow> Some (parseInt_number x)
      | Some (JStr s) \<Rightarrow> parseInt_string s
      | _ \<Rightarrow> None)"

definition toNumber :: "json option \<Rightarrow> real option" where
  "toNumber v =
     (case v of
        None \<Rightarrow> None
      | Some JNull \<Rightarrow> Some 0
      | Some (JBool b) \<Rightarrow> Some (if b then 1 else 0)
      | Some (JNum x) \<Rightarrow> Some x
      | Some (JStr s) \<Rightarrow> toNumber_string s)"

text \<open>
  \<^verbatim>\<open>Model.findByIdAndUpdate\<close> and \<^verbatim>\<open>doc.save()\<close> of a stored document write the
  first document that matches; \<^verbatim>\<open>Model.findOne\<close> is \<^const>\<open>find\<close>.
\<close>

fun update_first :: "('a \<Rightarrow> bool) \<Rightarrow> ('a \<Rightarrow> 'a) \<Rightarrow> 'a list \<Rightarrow> 'a list" where
  "update_first P f [] = []"
| "update_first P f (x # xs) = (if P x then f x # xs else x # update_first P f xs)"

section \<open>Alert status updates\<close>

text \<open>
  \<^verbatim>\<open>PUT /sos/:id/status\<close> of the emergency router. The handler dereferences
  \<^verbatim>\<open>authority._id\<close> after the alert was found and before it is saved, so an actor
  without an authority profile ends in the \<^verbatim>\<open>catch\<close> block with nothing written.
\<close>

definition sos_update_status ::
  "db \<Rightarrow> actor \<Rightarrow> oid \<Rightarrow> string \<Rightarrow> string option \<Rightarrow> (error + alert) \<times> db" where
  "sos_update_status st u sosId status responseNotes =
     (if userType u \<noteq> ''authority''
      then (Inl (Forbidden ''Access denied. Only authorities can update SOS status.''), st)
      else if status \<notin> set [''acknowledged'', ''responding'', ''resolved'']
      then (Inl (BadRequest ''Invalid status''), st)
      else
        (case find (\<lambda>a. a_id a = sosId \<and> a_type a = ''sos'') (alerts st) of
           None \<Rightarrow> (Inl (NotFound ''SOS alert not found''), st)
         | Some sosAlert \<Rightarrow>
             (case find (\<lambda>au. au_userId au = userId u) (authorities st) of
                None \<Rightarrow> (Inl (ServerError ''Server error''), st)
              | Some authority \<Rightarrow>
                  (let saved = sosAlert
                         \<lparr>a_status := status,
                          a_authorityId := Some (au_id authority),
                          a_description :=
                            (if falsy_str responseNotes then a_description sosAlert
                             else responseNotes)\<rparr>;
                       st1 = st\<lparr>alerts :=
                         update_first (\<lambda>a. a_id a = a_id saved) (\<lambda>_. saved) (alerts st)\<rparr>;
                       st2 =
                         (if status = ''resolved''
                          then
                            (case a_touristId saved of
                               None \<Rightarrow> st1
                             | Some tid \<Rightarrow>
                                 st1\<lparr>tourists :=
                                   update_first (\<lambda>t. t_id t = tid)
                                     (\<lambda>t. t\<lparr>t_status := ''active''\<rparr>) (tourists st1)\<rparr>)
                          else st1)
                   in (Inr saved, st2)))))"

text \<open>\<^verbatim>\<open>PUT /:id/status\<close> of the alert router.\<close>

definition alert_update_status ::
  "db \<Rightarrow> clock \<Rightarrow> actor \<Rightarrow> oid \<Rightarrow> string \<Rightarrow> (error + alert) \<times> db" where
  "alert_update_status st clk u alertId status =
     (if userType u \<noteq> ''authority''
      then (Inl (Forbidden ''Access denied. Only authorities can update alert status.''), st)
      else if status \<notin> set [''acknowledged'', ''responding'', ''resolved'', ''closed'']
      then (Inl (BadRequest ''Invalid status''), st)
      else
        (case find (\<lambda>a. a_id a = alertId) (alerts st) of
           None \<Rightarrow> (Inl (NotFound ''Alert not found''), st)
         | Some found \<Rightarrow>
             (Inr (found\<lparr>a_status := status, a_updatedAt := now clk\<rparr>),
              st\<lparr>alerts :=
                update_first (\<lambda>a. a_id a = alertId)
                  (\<lambda>a. a\<lparr>a_status := status, a_updatedAt := now clk\<rparr>) (alerts st)\<rparr>)))"

text \<open>
  \<^verbatim>\<open>PUT /alerts/:id/status\<close> of the authority dashboard router. It has no check of
  \<^verbatim>\<open>req.user.userType\<close>; \<^verbatim>\<open>authority._id\<close> is read while the update document is
  built, before the store is touched.
\<close>

definition dashboard_update_alert_status ::
  "db \<Rightarrow> clock \<Rightarrow> actor \<Rightarrow> oid \<Rightarrow> string \<Rightarrow> (error + alert) \<times> db" where
  "dashboard_update_alert_status st clk u alertId status =
     (if status \<notin> set [''acknowledged'', ''responding'', ''resolved'', ''closed'']
      then (Inl (BadRequest ''Invalid status''), st)
      else
        (case find (\<lambda>au. au_userId au = userId u) (authorities st) of
           None \<Rightarrow> (Inl (ServerError ''Server error''), st)
         | Some authority \<Rightarrow>
             (case find (\<lambda>a. a_id a = alertId) (alerts st) of
                None \<Rightarrow> (Inl (NotFound ''Alert not found''), st)
              | Some found \<Rightarrow>
                  (Inr (found\<lparr>a_status := status,
                               a_authorityId := Some (au_id authority),
                               a_updatedAt := now clk\<rparr>),
                   st\<lparr>alerts :=
                     update_first (\<lambda>a. a_id a = alertId)
                       (\<lambda>a. a\<lparr>a_status := status,
                               a_authorityId := Some (au_id authority),
                               a_updatedAt := now clk\<rparr>) (alerts st)\<rparr>))))"

section \<open>Emergency router: SOS and incident reports\<close>

text \<open>The \<^verbatim>\<open>location\<close> object of a request body.\<close>

record body_location =
  bl_lat :: "json option"
  bl_lng :: "json option"
  bl_address :: "string option"

record sos_body =
  sb_location :: "body_location option"
  sb_message :: "string option"
  sb_severity :: "string option"

text \<open>
  \<^verbatim>\<open>POST /sos\<close>. The default message reads the name of the populated user, which
  throws when the user document is gone; a coordinate that parses to \<^verbatim>\<open>NaN\<close> cannot
  be cast to a number by the store, so \<^verbatim>\<open>sosAlert.save()\<close> throws; \<^verbatim>\<open>severity\<close>
  defaults to \<^verbatim>\<open>'critical'\<close> when the field is absent. \<^verbatim>\<open>notifyAuthorities\<close> and
  \<^verbatim>\<open>notifyEmergencyContacts\<close> only log and send mail inside their own
  \<^verbatim>\<open>try/catch\<close>: they neither write to the store nor fail the request.
\<close>

definition sos :: "db \<Rightarrow> clock \<Rightarrow> actor \<Rightarrow> sos_body \<Rightarrow> (error + alert) \<times> db" where
  "sos st clk u body =
     (if sb_location body = None \<or> falsy (bl_lat (the (sb_location body))) \<or>
         falsy (bl_lng (the (sb_location body)))
      then (Inl (BadRequest ''Location coordinates are required for SOS''), st)
      else
        (case find (\<lambda>t. t_userId t = userId u) (tourists st) of
           None \<Rightarrow> (Inl (NotFound ''Tourist profile not found''), st)
         | Some tourist \<Rightarrow>
             (case (if falsy_str (sb_message body)
                    then map_option (\<lambda>usr. ''Emergency SOS from '' @ u_name usr)
                           (find (\<lambda>usr. u_id usr = t_userId tourist) (users st))
                    else sb_message body,
                    parseFloat (bl_lat (the (sb_location body))),
                    parseFloat (bl_lng (the (sb_location body)))) of
                (Some msg, Some la, Some lo) \<Rightarrow>
                  (let sosAlert =
                         \<lparr>a_id = next_oid st,
                          a_type = ''sos'',
                          a_touristId = Some (t_id tourist),
                          a_location =
                            \<lparr>lat = la, lng = lo,
                             address = bl_address (the (sb_location body))\<rparr>,
                          a_message = msg,
                          a_description = None,
                          a_severity =
                            (case sb_severity body of None \<Rightarrow> ''critical'' | Some sev \<Rightarrow> sev),
                          a_status = ''active'',
                          a_authorityId = None,
                          a_createdAt = now clk,
                          a_updatedAt = now clk\<rparr>;
                       st1 = st\<lparr>alerts := alerts st @ [sosAlert],
                                next_oid := next_oid st + 1\<rparr>;
                       st2 = st1\<lparr>tourists :=
                         update_first (\<lambda>t. t_id t = t_id tourist)
                           (\<lambda>_. tourist\<lparr>t_status := ''emergency''\<rparr>) (tourists st1)\<rparr>
                   in (Inr sosAlert, st2))
              | _ \<Rightarrow> (Inl (ServerError ''Server error while sending SOS alert''), st))))"

record incident_body =
  ib_type :: "string option"
  ib_title :: "string option"
  ib_description :: "string option"
  ib_location :: "body_location option"
  ib_severity :: "string option"
  ib_witnesses :: "string list option"
  ib_evidences :: "string list option"

text \<open>
  \<^verbatim>\<open>assignToAuthority\<close>: the first authority on duty of the two departments, if
  there is one, is written to the incident.
\<close>

definition assignToAuthority :: "db \<Rightarrow> incident \<Rightarrow> incident \<times> db" where
  "assignToAuthority st inc =
     (case filter (\<lambda>au. au_isOnDuty au \<and>
                     au_department au \<in> set [''Police Department'', ''Tourism Department''])
             (authorities st) of
        [] \<Rightarrow> (inc, st)
      | au # _ \<Rightarrow>
          (let inc' = inc\<lparr>i_assignedOfficer := Some (au_id au)\<rparr>
           in (inc', st\<lparr>incidents :=
                 update_first (\<lambda>i. i_id i = i_id inc') (\<lambda>_. inc') (incidents st)\<rparr>)))"

text \<open>
  \<^verbatim>\<open>POST /incident\<close>. The coordinates of the location are not tested:
  \<^verbatim>\<open>parseFloat\<close> of an absent or non-numeric one is \<^verbatim>\<open>NaN\<close>, which the store
  cannot cast to a number, so \<^verbatim>\<open>incident.save()\<close> throws and the handler answers
  500.
\<close>

definition report_incident ::
  "db \<Rightarrow> clock \<Rightarrow> actor \<Rightarrow> incident_body \<Rightarrow> (error + incident \<times> alert) \<times> db" where
  "report_incident st clk u body =
     (if falsy_str (ib_type body) \<or> falsy_str (ib_title body) \<or>
         falsy_str (ib_description body) \<or> ib_location body = None
      then (Inl (BadRequest ''Type, title, description, and location are required''), st)
      else
        (case find (\<lambda>t. t_userId t = userId u) (tourists st) of
           None \<Rightarrow> (Inl (NotFound ''Tourist profile not found''), st)
         | Some tourist \<Rightarrow>
             (case (parseFloat (bl_lat (the (ib_location body))),
                    parseFloat (bl_lng (the (ib_location body)))) of
                (Some la, Some lo) \<Rightarrow>
                  (let inc =
                         \<lparr>i_id = next_oid st,
                          i_reporterId = t_id tourist,
                          i_type = the (ib_type body),
                          i_title = the (ib_title body),
                          i_description = the (ib_description body),
                          i_location = \<lparr>lat = la, lng = lo,
                                        address = bl_address (the (ib_location body))\<rparr>,
                          i_severity =
                            (if falsy_str (ib_severity body) then ''medium''
                             else the (ib_severity body)),
                          i_witnesses =
                            (case ib_witnesses body of None \<Rightarrow> [] | Some ws \<Rightarrow> ws),
                          i_evidences =
                            (case ib_evidences body of None \<Rightarrow> [] | Some es \<Rightarrow> es),
                          i_assignedOfficer = None\<rparr>;
                       st1 = st\<lparr>incidents := incidents st @ [inc],
                                next_oid := next_oid st + 1\<rparr>;
                       alert =
                         \<lparr>a_id = next_oid st1,
                          a_type = ''incident'',
                          a_touristId = Some (t_id tourist),
                          a_location = i_location inc,
                          a_message = ''Incident reported: '' @ the (ib_title body),
                          a_description = ib_description body,
                          a_severity = i_severity inc,
                          a_status = ''active'',
                          a_authorityId = None,
                          a_createdAt = now clk,
                          a_updatedAt = now clk\<rparr>;
                       st2 = st1\<lparr>alerts := alerts st1 @ [alert],
                                 next_oid := next_oid st1 + 1\<rparr>;
                       assigned = assignToAuthority st2 inc
                   in (Inr (fst assigned, alert), snd assigned))
              | _ \<Rightarrow> (Inl (ServerError ''Server error while reporting incident''), st))))"

section \<open>Tourist router: location updates and the safety score\<close>

text \<open>
  The loop of \<^verbatim>\<open>calculateSafetyScore\<close> over the danger zones, threading the score:
  \<^verbatim>\<open>
  for (const zone of dangerZones) {
      const distance = calculateDistance(lat, lng, zone.center.lat, zone.center.lng);
      if (distance <= zone.radius) { score -= 30; }
      else if (distance <= zone.radius * 2) { score -= 15; }
  }
  \<close>
\<close>

fun danger_loop :: "real \<Rightarrow> real \<Rightarrow> geofence list \<Rightarrow> int \<Rightarrow> int" where
  "danger_loop la lo [] score = score"
| "danger_loop la lo (zone # zones) score =
     (let distance = calculateDistance la lo (lat (g_center zone)) (lng (g_center zone))
      in danger_loop la lo zones
           (if distance \<le> g_radius zone then score - 30
            else if distance \<le> g_radius zone * 2 then score - 15
            else score))"

text \<open>
  The query for recent alerts of \<^verbatim>\<open>calculateSafetyScore\<close>:
  \<^verbatim>\<open>
  Alert.find({ location: { $near: { $geometry: { type: "Point", coordinates: [lng, lat] },
                                    $maxDistance: 1000 } },
               createdAt: { $gte: new Date(Date.now() - 24 * 60 * 60 * 1000) },
               type: { $in: ['incident', 'sos'] } })
  \<close>
\<close>

definition recentAlerts :: "db \<Rightarrow> clock \<Rightarrow> real \<Rightarrow> real \<Rightarrow> alert list" where
  \<comment> \<open>Modelled from the spec: the proximity primitive of the record store
     (\<^verbatim>\<open>$near\<close> with \<^verbatim>\<open>$maxDistance\<close>) is not code of the sources; "located within
     1000 m of p" is read as a great-circle distance of at most 1000, measured by
     \<^const>\<open>calculateDistance\<close>.\<close>
  "recentAlerts st clk la lo =
     filter (\<lambda>a. calculateDistance la lo (lat (a_location a)) (lng (a_location a)) \<le> 1000 \<and>
                 now clk - 24 * 60 * 60 * 1000 \<le> a_createdAt a \<and>
                 a_type a \<in> set [''incident'', ''sos''])
       (alerts st)"

text \<open>
  \<^verbatim>\<open>calculateSafetyScore\<close>. Its \<^verbatim>\<open>catch\<close> block answers 85 when a query of the
  store throws; the store of the model answers every query, so the block is not reached.
\<close>

definition calculateSafetyScore :: "db \<Rightarrow> clock \<Rightarrow> real \<Rightarrow> real \<Rightarrow> int" where
  "calculateSafetyScore st clk la lo =
     (let score = 85;
          dangerZones = filter (\<lambda>g. g_type g = ''danger'' \<and> g_isActive g) (geoFences st);
          score = danger_loop la lo dangerZones score;
          hour = getHours clk;
          score = (if 22 \<le> hour \<or> hour \<le> 5 then score - 10 else score);
          score = score - int (length (recentAlerts st clk la lo)) * 5
      in max 0 (min 100 score))"

record latlng_body =
  lb_lat :: "json option"
  lb_lng :: "json option"

text \<open>
  \<^verbatim>\<open>POST /location\<close>: the answer carries the stored location and score. The stored
  coordinates are \<^verbatim>\<open>parseFloat(lat)\<close> and \<^verbatim>\<open>parseFloat(lng)\<close>; when one of them
  is \<^verbatim>\<open>NaN\<close> the store cannot cast it and \<^verbatim>\<open>tourist.save()\<close> throws. The score
  is computed from the fields as they came, \<^verbatim>\<open>calculateSafetyScore(lat, lng)\<close>: the
  arithmetic of \<^verbatim>\<open>calculateDistance\<close> converts them with \<^verbatim>\<open>Number\<close>.
\<close>

definition update_location ::
  "db \<Rightarrow> clock \<Rightarrow> actor \<Rightarrow> latlng_body \<Rightarrow> (error + (latlng \<times> int) \<times> int) \<times> db" where
  \<comment> \<open>Modelled from the spec: what the record store does with query coordinates that are
     not numbers is not code of the sources. A field that converts to a number is taken as
     that number; one that converts to \<^verbatim>\<open>NaN\<close> is taken to make the lookup fail, for
     which the \<^verbatim>\<open>catch\<close> block of \<^verbatim>\<open>calculateSafetyScore\<close> answers the default
     score 85.\<close>
  "update_location st clk u body =
     (if falsy (lb_lat body) \<or> falsy (lb_lng body)
      then (Inl (BadRequest ''Latitude and longitude are required''), st)
      else
        (case find (\<lambda>t. t_userId t = userId u) (tourists st) of
           None \<Rightarrow> (Inl (NotFound ''Tourist profile not found''), st)
         | Some tourist \<Rightarrow>
             (case (parseFloat (lb_lat body), parseFloat (lb_lng body)) of
                (Some la, Some lo) \<Rightarrow>
                  (let saved = tourist
                         \<lparr>t_currentLocation := Some (\<lparr>lat = la, lng = lo\<rparr>, now clk),
                          t_safetyScore :=
                            (case (toNumber (lb_lat body), toNumber (lb_lng body)) of
                               (Some x, Some y) \<Rightarrow> calculateSafetyScore st clk x y
                             | _ \<Rightarrow> 85)\<rparr>
                   in (Inr ((\<lparr>lat = la, lng = lo\<rparr>, now clk), t_safetyScore saved),
                       st\<lparr>tourists :=
                         update_first (\<lambda>t. t_id t = t_id saved) (\<lambda>_. saved) (tourists st)\<rparr>))
              | _ \<Rightarrow> (Inl (ServerError ''Server error''), st))))"

section \<open>Geo router: fences and the location check\<close>

text \<open>
  The body of a fence request. \<^verbatim>\<open>center\<close> is \<open>None\<close> when the field is absent
  or falsy; a value without coordinates has both of them absent.
\<close>

record fence_body =
  fb_name :: "string option"
  fb_description :: "string option"
  fb_type :: "string option"
  fb_center :: "latlng_body option"
  fb_radius :: "json option"
  fb_region :: "string option"
  fb_isActive :: "bool option"

text \<open>
  \<^verbatim>\<open>POST /fences\<close>. After the role check, the only test of the body is that
  \<^verbatim>\<open>name\<close>, \<^verbatim>\<open>type\<close>, \<^verbatim>\<open>center\<close>, \<^verbatim>\<open>radius\<close> and \<^verbatim>\<open>region\<close> are not
  falsy. The fence takes \<^verbatim>\<open>parseFloat\<close> of the coordinates and \<^verbatim>\<open>parseInt\<close> of
  the radius. A value that parses to \<^verbatim>\<open>NaN\<close> cannot be cast by the store and a
  missing authority profile makes \<^verbatim>\<open>authority._id\<close> throw: both end in the
  \<^verbatim>\<open>catch\<close> block. A new fence is active (the default of the model, whose queries
  all select \<^verbatim>\<open>isActive: true\<close>).
\<close>

definition create_fence ::
  "db \<Rightarrow> clock \<Rightarrow> actor \<Rightarrow> fence_body \<Rightarrow> (error + geofence) \<times> db" where
  "create_fence st clk u body =
     (if userType u \<noteq> ''authority''
      then (Inl (Forbidden ''Access denied. Only authorities can create geo-fences.''), st)
      else if falsy_str (fb_name body) \<or> falsy_str (fb_type body) \<or> fb_center body = None \<or>
              falsy (fb_radius body) \<or> falsy_str (fb_region body)
      then (Inl (BadRequest
                  ''Name, type, center coordinates, radius, and region are required''), st)
      else
        (case (find (\<lambda>au. au_userId au = userId u) (authorities st),
               parseFloat (lb_lat (the (fb_center body))),
               parseFloat (lb_lng (the (fb_center body))),
               parseInt (fb_radius body)) of
           (Some authority, Some la, Some lo, Some r) \<Rightarrow>
             (let geoFence =
                    \<lparr>g_id = next_oid st,
                     g_name = the (fb_name body),
                     g_description = fb_description body,
                     g_type = the (fb_type body),
                     g_center = \<lparr>lat = la, lng = lo\<rparr>,
                     g_radius = r,
                     g_region = the (fb_region body),
                     g_createdBy = au_id authority,
                     g_isActive = True,
                     g_updatedAt = now clk\<rparr>
              in (Inr geoFence,
                  st\<lparr>geoFences := geoFences st @ [geoFence], next_oid := next_oid st + 1\<rparr>))
         | _ \<Rightarrow> (Inl (ServerError ''Server error''), st)))"

text \<open>
  \<^verbatim>\<open>PUT /fences/:id\<close>. The update document takes each field of the body that is
  not falsy (\<^verbatim>\<open>isActive\<close>: that is defined) and is written with
  \<^verbatim>\<open>findByIdAndUpdate(id, updateData, { new: true })\<close>, which applies it to the
  stored fence as it is: the call asks for no validation of the update. A coordinate or
  a radius that parses to \<^verbatim>\<open>NaN\<close> cannot be cast to a number: the call throws and
  the handler answers 500.
\<close>

definition updateData :: "clock \<Rightarrow> fence_body \<Rightarrow> geofence \<Rightarrow> geofence" where
  "updateData clk body g =
     g\<lparr>g_name := (if falsy_str (fb_name body) then g_name g else the (fb_name body)),
       g_description :=
         (if falsy_str (fb_description body) then g_description g else fb_description body),
       g_type := (if falsy_str (fb_type body) then g_type g else the (fb_type body)),
       g_center :=
         (case fb_center body of
            None \<Rightarrow> g_center g
          | Some c \<Rightarrow> \<lparr>lat = the (parseFloat (lb_lat c)), lng = the (parseFloat (lb_lng c))\<rparr>),
       g_radius :=
         (if falsy (fb_radius body) then g_radius g else the (parseInt (fb_radius body))),
       g_isActive := (case fb_isActive body of None \<Rightarrow> g_isActive g | Some b \<Rightarrow> b),
       g_updatedAt := now clk\<rparr>"

definition update_fence ::
  "db \<Rightarrow> clock \<Rightarrow> actor \<Rightarrow> oid \<Rightarrow> fence_body \<Rightarrow> (error + geofence) \<times> db" where
  "update_fence st clk u fenceId body =
     (if userType u \<noteq> ''authority''
      then (Inl (Forbidden ''Access denied. Only authorities can update geo-fences.''), st)
      else if (case fb_center body of
                 None \<Rightarrow> False
               | Some c \<Rightarrow> parseFloat (lb_lat c) = None \<or> parseFloat (lb_lng c) = None) \<or>
              (if falsy (fb_radius body) then False else parseInt (fb_radius body) = None)
      then (Inl (ServerError ''Server error''), st)
      else
        (case find (\<lambda>g. g_id g = fenceId) (geoFences st) of
           None \<Rightarrow> (Inl (NotFound ''Geo-fence not found''), st)
         | Some found \<Rightarrow>
             (Inr (updateData clk body found),
              st\<lparr>geoFences :=
                update_first (\<lambda>g. g_id g = fenceId) (updateData clk body) (geoFences st)\<rparr>)))"

text \<open>
  \<^verbatim>\<open>POST /check-location\<close>: the loop pushes every active fence whose distance from
  the position is at most its radius, with that distance. When a coordinate parses to
  \<^verbatim>\<open>NaN\<close> every distance is \<^verbatim>\<open>NaN\<close>, no comparison holds and nothing is pushed.
\<close>

fun check_loop :: "real \<Rightarrow> real \<Rightarrow> geofence list \<Rightarrow> (geofence \<times> real) list \<Rightarrow> (geofence \<times> real) list"
  where
  "check_loop la lo [] results = results"
| "check_loop la lo (fence # fences) results =
     (let distance = calculateDistance la lo (lat (g_center fence)) (lng (g_center fence))
      in check_loop la lo fences
           (if distance \<le> g_radius fence then results @ [(fence, distance)] else results))"

record check_result =
  cr_location :: "real option \<times> real option"
  cr_geoFences :: "(geofence \<times> real) list"
  cr_isInDangerZone :: bool

definition check_location :: "db \<Rightarrow> latlng_body \<Rightarrow> error + check_result" where
  "check_location st body =
     (if falsy (lb_lat body) \<or> falsy (lb_lng body)
      then Inl (BadRequest ''Latitude and longitude are required'')
      else
        (let latitude = parseFloat (lb_lat body);
             longitude = parseFloat (lb_lng body);
             results =
               (case (latitude, longitude) of
                  (Some la, Some lo) \<Rightarrow> check_loop la lo (filter g_isActive (geoFences st)) []
                | _ \<Rightarrow> [])
         in Inr \<lparr>cr_location = (latitude, longitude),
                 cr_geoFences = results,
                 cr_isInDangerZone = list_ex (\<lambda>r. g_type (fst r) = ''danger'') results\<rparr>))"

section \<open>A small store for concrete runs\<close>

text \<open>
  One tourist (user 3) and one police officer on duty (user 7); one active danger zone of
  radius 500 around \<open>(12, 77)\<close>; one SOS alert of the tourist at that point, raised
  at 22:00 of the third day of the epoch.
\<close>

definition officer :: actor where
  "officer = \<lparr>userId = 7, userType = ''authority''\<rparr>"

definition visitor :: actor where
  "visitor = \<lparr>userId = 3, userType = ''tourist''\<rparr>"

definition danger_zone :: geofence where
  "danger_zone =
     \<lparr>g_id = 50, g_name = ''Cliff'', g_description = None, g_type = ''danger'',
      g_center = \<lparr>lat = 12, lng = 77\<rparr>, g_radius = 500, g_region = ''South'',
      g_createdBy = 70, g_isActive = True, g_updatedAt = 0\<rparr>"

definition sos_alert :: alert where
  "sos_alert =
     \<lparr>a_id = 1, a_type = ''sos'', a_touristId = Some 30,
      a_location = \<lparr>lat = 12, lng = 77, address = None\<rparr>,
      a_message = ''Emergency SOS from Asha'', a_description = None,
      a_severity = ''critical'', a_status = ''active'', a_authorityId = None,
      a_createdAt = 252000000, a_updatedAt = 252000000\<rparr>"

definition example_db :: db where
  "example_db =
     \<lparr>users = [\<lparr>u_id = 3, u_name = ''Asha''\<rparr>, \<lparr>u_id = 7, u_name = ''Ravi''\<rparr>],
      tourists = [\<lparr>t_id = 30, t_userId = 3, t_status = ''emergency'',
                   t_currentLocation = None, t_safetyScore = 85\<rparr>],
      authorities = [\<lparr>au_id = 70, au_userId = 7, au_isOnDuty = True,
                      au_department = ''Police Department''\<rparr>],
      geoFences = [danger_zone],
      alerts = [sos_alert],
      incidents = [],
      next_oid = 100\<rparr>"

text \<open>23:00 of the third day, and noon of the day after, in a zone of offset 0.\<close>

definition night_clock :: clock where
  "night_clock = \<lparr>now = 255600000, tzOffset = 0\<rparr>"

definition noon_clock :: clock where
  "noon_clock = \<lparr>now = 302400000, tzOffset = 0\<rparr>"

text \<open>
  A second store with the same danger zones and alerts as \<open>example_db\<close> but no tourist
  and one more, inactive, fence; a clock one minute after \<open>night_clock\<close>; a store
  whose only fence lies on the equator.
\<close>

definition other_db :: db where
  "other_db =
     example_db\<lparr>tourists := [],
                geoFences := [danger_zone, danger_zone\<lparr>g_id := 51, g_isActive := False\<rparr>]\<rparr>"

definition later_clock :: clock where
  "later_clock = \<lparr>now = 255660000, tzOffset = 0\<rparr>"

definition equator_zone :: geofence where
  "equator_zone = danger_zone\<lparr>g_id := 52, g_center := \<lparr>lat = 0, lng = 77\<rparr>, g_radius := 100\<rparr>"

definition equator_db :: db where
  "equator_db = example_db\<lparr>geoFences := [equator_zone]\<rparr>"

text \<open>
  A run of the emergency router: the tourist of \<open>calm_db\<close> is active and no alert is
  stored; the SOS request creates \<open>created_alert\<close>, the incident report files
  \<open>filed_incident\<close> with \<open>filed_alert\<close>.
\<close>

definition calm_tourist :: tourist where
  "calm_tourist =
     \<lparr>t_id = 30, t_userId = 3, t_status = ''active'', t_currentLocation = None,
      t_safetyScore = 85\<rparr>"

definition calm_db :: db where
  "calm_db = example_db\<lparr>tourists := [calm_tourist], alerts := []\<rparr>"

definition sos_request :: sos_body where
  "sos_request =
     \<lparr>sb_location = Some \<lparr>bl_lat = Some (JNum 12), bl_lng = Some (JNum 77), bl_address = None\<rparr>,
      sb_message = None, sb_severity = None\<rparr>"

definition created_alert :: alert where
  "created_alert =
     \<lparr>a_id = 100, a_type = ''sos'', a_touristId = Some 30,
      a_location = \<lparr>lat = 12, lng = 77, address = None\<rparr>,
      a_message = ''Emergency SOS from Asha'', a_description = None,
      a_severity = ''critical'', a_status = ''active'', a_authorityId = None,
      a_createdAt = 255600000, a_updatedAt = 255600000\<rparr>"

definition after_sos_db :: db where
  "after_sos_db =
     calm_db\<lparr>tourists := [calm_tourist\<lparr>t_status := ''emergency''\<rparr>],
             alerts := [created_alert], next_oid := 101\<rparr>"

definition incident_request :: incident_body where
  "incident_request =
     \<lparr>ib_type = Some ''theft'', ib_title = Some ''Theft'', ib_description = Some ''Bag stolen'',
      ib_location = Some \<lparr>bl_lat = Some (JNum 12), bl_lng = Some (JNum 77), bl_address = None\<rparr>,
      ib_severity = Some ''high'', ib_witnesses = None, ib_evidences = None\<rparr>"

definition filed_incident :: incident where
  "filed_incident =
     \<lparr>i_id = 100, i_reporterId = 30, i_type = ''theft'', i_title = ''Theft'',
      i_description = ''Bag stolen'', i_location = \<lparr>lat = 12, lng = 77, address = None\<rparr>,
      i_severity = ''high'', i_witnesses = [], i_evidences = [],
      i_assignedOfficer = Some 70\<rparr>"

definition filed_alert :: alert where
  "filed_alert =
     \<lparr>a_id = 101, a_type = ''incident'', a_touristId = Some 30,
      a_location = \<lparr>lat = 12, lng = 77, address = None\<rparr>,
      a_message = ''Incident reported: Theft'', a_description = Some ''Bag stolen'',
      a_severity = ''high'', a_status = ''active'', a_authorityId = None,
      a_createdAt = 255600000, a_updatedAt = 255600000\<rparr>"

definition after_report_db :: db where
  "after_report_db =
     calm_db\<lparr>incidents := [filed_incident], alerts := [filed_alert], next_oid := 102\<rparr>"

text \<open>
  Fence bodies: an update with a negative radius and a latitude of 999, a creation with
  the number 0 as radius, and the same creation with the string \<^verbatim>\<open>"0"\<close>.
\<close>

definition bad_update :: fence_body where
  "bad_update =
     \<lparr>fb_name = None, fb_description = None, fb_type = None,
      fb_center = Some \<lparr>lb_lat = Some (JNum 999), lb_lng = Some (JNum 77)\<rparr>,
      fb_radius = Some (JNum (- 5)), fb_region = None, fb_isActive = None\<rparr>"

definition zero_radius_fence :: fence_body where
  "zero_radius_fence =
     \<lparr>fb_name = Some ''Market'', fb_description = None, fb_type = Some ''danger'',
      fb_center = Some \<lparr>lb_lat = Some (JNum 12), lb_lng = Some (JNum 77)\<rparr>,
      fb_radius = Some (JNum 0), fb_region = Some ''South'', fb_isActive = None\<rparr>"

definition string_zero_fence :: fence_body where
  "string_zero_fence = zero_radius_fence\<lparr>fb_radius := Some (JStr ''0'')\<rparr>"

text \<open>
  Two positions on the equator, at the centre of \<open>equator_zone\<close>: the latitude sent
  as the number 0, and sent as the string \<^verbatim>\<open>"0"\<close>.
\<close>

definition number_zero :: latlng_body where
  "number_zero = \<lparr>lb_lat = Some (JNum 0), lb_lng = Some (JNum 77)\<rparr>"

definition string_zero :: latlng_body where
  "string_zero = \<lparr>lb_lat = Some (JStr ''0''), lb_lng = Some (JNum 77)\<rparr>"

section \<open>Properties of the distance formula\<close>

text \<open>
  Over the reals the formula gives 0 for a position and itself and the same value for a
  pair of positions in either order. These are facts about the formula; the rounding of
  the double computation is outside them.
\<close>

lemma calculateDistance_same: "calculateDistance la lo la lo = 0"
  by (simp add: calculateDistance_def atan2_def)

lemma sin_half_swap:
  "sin ((y - x) * pi / 180 / 2) * sin ((y - x) * pi / 180 / 2) =
   sin ((x - y) * pi / 180 / 2) * sin ((x - y) * pi / 180 / 2)" for x y :: real
proof -
  have "y - x = - (x - y)"
    by simp
  then have "(y - x) * pi / 180 / 2 = - ((x - y) * pi / 180 / 2)"
    by (simp only: mult_minus_left minus_divide_left [symmetric])
  then show ?thesis
    by (simp only: sin_minus minus_mult_minus)
qed

lemma calculateDistance_swap:
  "calculateDistance lat1 lng1 lat2 lng2 = calculateDistance lat2 lng2 lat1 lng1"
proof -
  have "sin ((lat2 - lat1) * pi / 180 / 2) * sin ((lat2 - lat1) * pi / 180 / 2) +
        cos (lat1 * pi / 180) * cos (lat2 * pi / 180) *
        sin ((lng2 - lng1) * pi / 180 / 2) * sin ((lng2 - lng1) * pi / 180 / 2) =
        sin ((lat1 - lat2) * pi / 180 / 2) * sin ((lat1 - lat2) * pi / 180 / 2) +
        cos (lat2 * pi / 180) * cos (lat1 * pi / 180) *
        sin ((lng1 - lng2) * pi / 180 / 2) * sin ((lng1 - lng2) * pi / 180 / 2)"
    using sin_half_swap [of lat2 lat1] sin_half_swap [of lng2 lng1]
    by (simp add: mult.assoc mult.commute)
  then show ?thesis
    by (simp add: calculateDistance_def Let_def)
qed

section \<open>Helper facts about the store and the loops\<close>

lemma find_update_first:
  assumes "\<And>x. P x \<Longrightarrow> P (f x)"
  shows "find P (update_first P f xs) = map_option f (find P xs)"
  using assms by (induction xs) auto

lemma length_update_first: "length (update_first P f xs) = length xs"
  by (induction xs) auto


lemma getHours_range: "0 \<le> getHours c \<and> getHours c < 24"
  by (simp add: getHours_def)

lemma danger_loop_count:
  "danger_loop la lo zones score =
     score
     - 30 * int (length (filter
         (\<lambda>g. calculateDistance la lo (lat (g_center g)) (lng (g_center g)) \<le> g_radius g)
         zones))
     - 15 * int (length (filter
         (\<lambda>g. g_radius g < calculateDistance la lo (lat (g_center g)) (lng (g_center g)) \<and>
              calculateDistance la lo (lat (g_center g)) (lng (g_center g)) \<le> 2 * g_radius g)
         zones))"
proof (induction zones arbitrary: score)
  case Nil
  show ?case by simp
next
  case (Cons zone zones)
  show ?case
    by (simp add: Cons.IH Let_def mult.commute)
qed

lemma check_loop_filter:
  "check_loop la lo fences results =
     results @
     map (\<lambda>g. (g, calculateDistance la lo (lat (g_center g)) (lng (g_center g))))
       (filter
          (\<lambda>g. calculateDistance la lo (lat (g_center g)) (lng (g_center g)) \<le> g_radius g)
          fences)"
  by (induction fences arbitrary: results) (simp_all add: Let_def)

lemma night_hours: "0 \<le> h \<Longrightarrow> h < 24 \<Longrightarrow> (22 \<le> h \<or> h \<le> 5) = (h \<in> {22, 23} \<union> {0..5})"
  for h :: int
  by auto

lemmas js_defs =
  falsy_def parseFloat_def parseFloat_string_def parseInt_def parseInt_string_def
  parseInt_number_def toNumber_def toNumber_string_def radix_literal_def take_sign_def
  take_exponent_def take_fraction_def take_decimal_def scale10_def is_space_def
  radix_digit_def digit_value_def digits_value_def

section \<open>The safety score\<close>

text \<open>
  Claim C3. The score is 85, less 30 for each active danger zone whose centre is within
  its radius of the position, less 15 for each active danger zone at a distance above its
  radius and at most twice its radius, less 10 when the hour of evaluation is 22, 23 or
  0 to 5, less 5 for each alert of type sos or incident within 1000 m raised no earlier
  than 24 hours before the evaluation, clamped to the integers from 0 to 100.
\<close>

theorem C3_safety_score_formula:
  "calculateSafetyScore st clk la lo =
     max 0 (min 100
       (85
        - 30 * int (length (filter
            (\<lambda>g. calculateDistance la lo (lat (g_center g)) (lng (g_center g)) \<le> g_radius g)
            (filter (\<lambda>g. g_type g = ''danger'' \<and> g_isActive g) (geoFences st))))
        - 15 * int (length (filter
            (\<lambda>g. g_radius g < calculateDistance la lo (lat (g_center g)) (lng (g_center g)) \<and>
                 calculateDistance la lo (lat (g_center g)) (lng (g_center g))
                   \<le> 2 * g_radius g)
            (filter (\<lambda>g. g_type g = ''danger'' \<and> g_isActive g) (geoFences st))))
        - (if getHours clk \<in> {22, 23} \<union> {0..5} then 10 else 0)
        - 5 * int (length (filter
            (\<lambda>a. a_type a \<in> {''sos'', ''incident''} \<and>
                 calculateDistance la lo (lat (a_location a)) (lng (a_location a)) \<le> 1000 \<and>
                 now clk - 86400000 \<le> a_createdAt a)
            (alerts st)))))"
proof -
  have hour: "(22 \<le> getHours clk \<or> getHours clk \<le> 5) = (getHours clk \<in> {22, 23} \<union> {0..5})"
    using getHours_range [of clk] night_hours [of "getHours clk"] by blast
  have recent:
    "recentAlerts st clk la lo =
       filter
         (\<lambda>a. a_type a \<in> {''sos'', ''incident''} \<and>
              calculateDistance la lo (lat (a_location a)) (lng (a_location a)) \<le> 1000 \<and>
              now clk - 86400000 \<le> a_createdAt a)
         (alerts st)"
    unfolding recentAlerts_def by (rule filter_cong) auto
  show ?thesis
    unfolding calculateSafetyScore_def Let_def danger_loop_count hour recent
    by (simp add: mult.commute)
qed

text \<open>
  The example of the specification: inside one danger zone, at 23:00, with one recent SOS
  alert at the position, the score is 40.
\<close>

theorem C3_example_score_40:
  "getHours night_clock = 23 \<and> calculateSafetyScore example_db night_clock 12 77 = 40"
proof -
  have d: "calculateDistance 12 77 12 77 = 0"
    by (rule calculateDistance_same)
  have h: "getHours night_clock = 23"
    by (simp add: getHours_def night_clock_def)
  have n: "now night_clock = 255600000"
    by (simp add: night_clock_def)
  show ?thesis
    using C3_safety_score_formula [of example_db night_clock 12 77]
    by (simp add: h n d example_db_def danger_zone_def sos_alert_def)
qed


lemma example_score_night: "calculateSafetyScore example_db night_clock 12 77 = 40"
  by (simp add: calculateSafetyScore_def recentAlerts_def getHours_def night_clock_def
      example_db_def danger_zone_def sos_alert_def calculateDistance_same)

lemma example_recent_night: "recentAlerts example_db night_clock 12 77 = [sos_alert]"
  by (simp add: recentAlerts_def night_clock_def example_db_def sos_alert_def
      calculateDistance_same)

text \<open>
  Claim C4, as stated, fails: the score also depends on the hour of the wall clock. With
  the same position, the same danger zones and the same recent alerts, the score is 50 at
  noon and 40 at 23:00.
\<close>

theorem C4_same_inputs_different_hour:
  "recentAlerts example_db noon_clock 12 77 = recentAlerts example_db night_clock 12 77 \<and>
   calculateSafetyScore example_db noon_clock 12 77 = 50 \<and>
   calculateSafetyScore example_db night_clock 12 77 = 40"
proof -
  have recent: "recentAlerts example_db noon_clock 12 77 = [sos_alert]"
    by (simp add: recentAlerts_def noon_clock_def example_db_def sos_alert_def
        calculateDistance_same)
  have hour: "getHours noon_clock = 12"
    by (simp add: getHours_def noon_clock_def)
  have zones: "filter (\<lambda>g. g_type g = ''danger'' \<and> g_isActive g) (geoFences example_db) =
      [danger_zone]"
    by (simp add: example_db_def danger_zone_def)
  have noon: "calculateSafetyScore example_db noon_clock 12 77 = 50"
    by (simp add: calculateSafetyScore_def recent hour zones)
       (simp add: danger_zone_def calculateDistance_same)
  show ?thesis
    by (simp add: recent noon example_recent_night example_score_night)
qed

text \<open>
  Claim C4, amended. Two runs at the same position whose stores have the same active
  danger zones and the same recent alerts, and whose clocks show the same hour, return
  the same score, whatever else differs; and every score lies between 0 and 100.
\<close>

theorem C4_score_determined_by_zones_alerts_hour:
  assumes "filter (\<lambda>g. g_type g = ''danger'' \<and> g_isActive g) (geoFences st1) =
           filter (\<lambda>g. g_type g = ''danger'' \<and> g_isActive g) (geoFences st2)"
    and "recentAlerts st1 clk1 la lo = recentAlerts st2 clk2 la lo"
    and "getHours clk1 = getHours clk2"
  shows "calculateSafetyScore st1 clk1 la lo = calculateSafetyScore st2 clk2 la lo \<and>
         0 \<le> calculateSafetyScore st1 clk1 la lo \<and>
         calculateSafetyScore st1 clk1 la lo \<le> 100"
  using assms by (simp add: calculateSafetyScore_def Let_def)

theorem C4_score_determined_witness:
  "filter (\<lambda>g. g_type g = ''danger'' \<and> g_isActive g) (geoFences example_db) =
   filter (\<lambda>g. g_type g = ''danger'' \<and> g_isActive g) (geoFences other_db) \<and>
   recentAlerts example_db night_clock 12 77 = recentAlerts other_db later_clock 12 77 \<and>
   getHours night_clock = getHours later_clock \<and>
   tourists example_db \<noteq> tourists other_db \<and>
   calculateSafetyScore example_db night_clock 12 77 =
     calculateSafetyScore other_db later_clock 12 77 \<and>
   0 \<le> calculateSafetyScore example_db night_clock 12 77 \<and>
   calculateSafetyScore example_db night_clock 12 77 \<le> 100"
proof -
  have zones:
    "filter (\<lambda>g. g_type g = ''danger'' \<and> g_isActive g) (geoFences example_db) =
     filter (\<lambda>g. g_type g = ''danger'' \<and> g_isActive g) (geoFences other_db)"
    by (simp add: other_db_def example_db_def danger_zone_def)
  have recent:
    "recentAlerts example_db night_clock 12 77 = recentAlerts other_db later_clock 12 77"
    by (simp add: recentAlerts_def other_db_def example_db_def sos_alert_def
        night_clock_def later_clock_def calculateDistance_same)
  have hour: "getHours night_clock = getHours later_clock"
    by (simp add: getHours_def night_clock_def later_clock_def)
  have differ: "tourists example_db \<noteq> tourists other_db"
    by (simp add: other_db_def example_db_def)
  show ?thesis
    using C4_score_determined_by_zones_alerts_hour [OF zones recent hour] zones recent hour differ
    by simp
qed

section \<open>The location check and the required-field test\<close>

lemma check_location_reports:
  assumes "\<not> falsy (lb_lat body)" and "\<not> falsy (lb_lng body)"
    and "parseFloat (lb_lat body) = Some la" and "parseFloat (lb_lng body) = Some lo"
  shows "\<exists>r. check_location st body = Inr r \<and>
           map fst (cr_geoFences r) =
             filter (\<lambda>g. g_isActive g \<and>
                       calculateDistance la lo (lat (g_center g)) (lng (g_center g))
                         \<le> g_radius g)
               (geoFences st)"
proof -
  let ?results = "check_loop la lo (filter g_isActive (geoFences st)) []"
  let ?r = "\<lparr>cr_location = (Some la, Some lo), cr_geoFences = ?results,
             cr_isInDangerZone = list_ex (\<lambda>r. g_type (fst r) = ''danger'') ?results\<rparr>"
  have run: "check_location st body = Inr ?r"
    using assms by (simp add: check_location_def Let_def)
  have inside:
    "map fst (cr_geoFences ?r) =
       filter (\<lambda>g. g_isActive g \<and>
                 calculateDistance la lo (lat (g_center g)) (lng (g_center g)) \<le> g_radius g)
         (geoFences st)"
    by (simp add: check_loop_filter comp_def conj_commute)
  from run inside show ?thesis
    by blast
qed

text \<open>
  Claim C5 at a position on the equator. The point \<open>(0, 77)\<close> is the centre of the
  active zone of \<open>equator_db\<close>, at distance 0 from it, within its radius of 100. Sent
  with the latitude as the number 0, the request is answered "Latitude and longitude are
  required", although both were supplied: the position is not reported inside the zone.
\<close>

theorem C5_equator_position_not_reported:
  "equator_zone \<in> set (geoFences equator_db) \<and> g_isActive equator_zone \<and>
   calculateDistance 0 77 (lat (g_center equator_zone)) (lng (g_center equator_zone))
     \<le> g_radius equator_zone \<and>
   check_location equator_db number_zero =
     Inl (BadRequest ''Latitude and longitude are required'')"
  by (simp add: equator_db_def equator_zone_def danger_zone_def check_location_def
      number_zero_def falsy_def calculateDistance_same)

text \<open>
  Claim C10, as stated, fails for a coordinate that equals 0 and is sent as a string: the
  string \<^verbatim>\<open>"0"\<close> is not falsy, it passes the required-field test and parses to 0.
  The check reports the zone around \<open>(0, 77)\<close>, and the update stores the location
  \<open>(0, 77)\<close>.
\<close>

theorem C10_string_zero_is_accepted:
  "parseFloat (lb_lat string_zero) = Some 0 \<and>
   check_location equator_db string_zero =
     Inr \<lparr>cr_location = (Some 0, Some 77), cr_geoFences = [(equator_zone, 0)],
          cr_isInDangerZone = True\<rparr> \<and>
   map t_currentLocation (tourists equator_db) = [None] \<and>
   map t_currentLocation
     (tourists (snd (update_location equator_db night_clock visitor string_zero))) =
     [Some (\<lparr>lat = 0, lng = 77\<rparr>, 255600000)]"
proof -
  have lat0: "parseFloat (lb_lat string_zero) = Some 0"
    and lng77: "parseFloat (lb_lng string_zero) = Some 77"
    and num0: "toNumber (lb_lat string_zero) = Some 0"
    and num77: "toNumber (lb_lng string_zero) = Some 77"
    and truthy: "\<not> falsy (lb_lat string_zero)" "\<not> falsy (lb_lng string_zero)"
    by (simp_all add: string_zero_def js_defs)
  have check: "check_location equator_db string_zero =
      Inr \<lparr>cr_location = (Some 0, Some 77), cr_geoFences = [(equator_zone, 0)],
           cr_isInDangerZone = True\<rparr>"
    by (simp add: check_location_def lat0 lng77 truthy Let_def)
       (simp add: equator_db_def equator_zone_def danger_zone_def calculateDistance_same)
  have who: "find (\<lambda>t. t_userId t = userId visitor) (tourists equator_db) =
      Some \<lparr>t_id = 30, t_userId = 3, t_status = ''emergency'', t_currentLocation = None,
            t_safetyScore = 85\<rparr>"
    by (simp add: equator_db_def example_db_def visitor_def)
  have people: "tourists equator_db =
      [\<lparr>t_id = 30, t_userId = 3, t_status = ''emergency'', t_currentLocation = None,
        t_safetyScore = 85\<rparr>]"
    by (simp add: equator_db_def example_db_def)
  have time: "now night_clock = 255600000"
    by (simp add: night_clock_def)
  have update:
    "map t_currentLocation
       (tourists (snd (update_location equator_db night_clock visitor string_zero))) =
       [Some (\<lparr>lat = 0, lng = 77\<rparr>, 255600000)]"
    by (simp add: update_location_def lat0 lng77 num0 num77 truthy who people time Let_def
        visitor_def)
  from lat0 check update people show ?thesis
    by simp
qed

text \<open>
  Claim C10, amended. A location check or a location update whose latitude or longitude
  is the JSON number 0 is answered with the missing-coordinates response: the check
  computes nothing and the update leaves the store as it was.
\<close>

theorem C10_number_zero_rejected:
  assumes "lb_lat body = Some (JNum 0) \<or> lb_lng body = Some (JNum 0)"
  shows "check_location st body = Inl (BadRequest ''Latitude and longitude are required'') \<and>
         update_location st clk u body =
           (Inl (BadRequest ''Latitude and longitude are required''), st)"
  using assms by (auto simp: check_location_def update_location_def falsy_def)

theorem C10_number_zero_witness:
  "(lb_lat number_zero = Some (JNum 0) \<or> lb_lng number_zero = Some (JNum 0)) \<and>
   check_location equator_db number_zero =
     Inl (BadRequest ''Latitude and longitude are required'') \<and>
   update_location equator_db night_clock visitor number_zero =
     (Inl (BadRequest ''Latitude and longitude are required''), equator_db)"
proof -
  have zero: "lb_lat number_zero = Some (JNum 0) \<or> lb_lng number_zero = Some (JNum 0)"
    by (simp add: number_zero_def)
  show ?thesis
    using C10_number_zero_rejected [OF zero, of equator_db night_clock visitor] zero
    by simp
qed

section \<open>Alert status updates: what the handlers check\<close>

lemma sos_update_status_forbidden:
  "userType u \<noteq> ''authority'' \<Longrightarrow>
   sos_update_status st u i status rnotes =
     (Inl (Forbidden ''Access denied. Only authorities can update SOS status.''), st)"
  by (simp add: sos_update_status_def)

lemma alert_update_status_forbidden:
  "userType u \<noteq> ''authority'' \<Longrightarrow>
   alert_update_status st clk u i status =
     (Inl (Forbidden ''Access denied. Only authorities can update alert status.''), st)"
  by (simp add: alert_update_status_def)

lemma dashboard_update_never_forbidden:
  "fst (dashboard_update_alert_status st clk u i status) \<noteq> Inl (Forbidden msg)"
  by (simp add: dashboard_update_alert_status_def split: option.splits)






text \<open>
  Claim C2 at the dashboard endpoint. A tourist who asks it to resolve the alert of the
  example store is answered 500, because \<^verbatim>\<open>authority._id\<close> throws for an actor
  without an authority profile, and 400 for a status outside the list; the other two
  endpoints answer the same actor 403. The store is unchanged in every case.
\<close>

theorem C2_dashboard_endpoint_skips_role_check:
  "userType visitor \<noteq> ''authority'' \<and>
   dashboard_update_alert_status example_db night_clock visitor 1 ''resolved'' =
     (Inl (ServerError ''Server error''), example_db) \<and>
   dashboard_update_alert_status example_db night_clock visitor 1 ''escalated'' =
     (Inl (BadRequest ''Invalid status''), example_db) \<and>
   alert_update_status example_db night_clock visitor 1 ''resolved'' =
     (Inl (Forbidden ''Access denied. Only authorities can update alert status.''),
      example_db) \<and>
   sos_update_status example_db visitor 1 ''resolved'' None =
     (Inl (Forbidden ''Access denied. Only authorities can update SOS status.''),
      example_db)"
proof -
  have role: "userType visitor \<noteq> ''authority''"
    by (simp add: visitor_def)
  have profile: "find (\<lambda>au. au_userId au = userId visitor) (authorities example_db) = None"
    by (simp add: visitor_def example_db_def)
  show ?thesis
    using role profile
    by (simp add: dashboard_update_alert_status_def sos_update_status_forbidden
        alert_update_status_forbidden)
qed

section \<open>Fence creation and update\<close>

lemma create_fence_string_zero_radius:
  "falsy (fb_radius zero_radius_fence) \<and> \<not> falsy (fb_radius string_zero_fence) \<and>
   map g_radius
     (geoFences (snd (create_fence example_db night_clock officer string_zero_fence))) =
     [500, 0]"
  by (simp add: create_fence_def string_zero_fence_def zero_radius_fence_def example_db_def
      officer_def danger_zone_def falsy_str_def js_defs Let_def)

text \<open>
  Claim C6, as stated, fails: the update handler has no check of the radius or of the
  coordinates. An authority gives the danger zone of the example store the radius -5 and
  the latitude 999; the request succeeds and the store keeps both.
\<close>

theorem C6_update_stores_invalid_zone:
  "map g_radius (geoFences example_db) = [500] \<and>
   map g_radius (geoFences (snd (update_fence example_db night_clock officer 50 bad_update))) =
     [- 5] \<and>
   map (\<lambda>g. lat (g_center g))
     (geoFences (snd (update_fence example_db night_clock officer 50 bad_update))) = [999] \<and>
   fst (update_fence example_db night_clock officer 50 bad_update) =
     Inr (danger_zone\<lparr>g_center := \<lparr>lat = 999, lng = 77\<rparr>, g_radius := - 5,
                      g_updatedAt := 255600000\<rparr>)"
  by (simp add: update_fence_def updateData_def example_db_def officer_def bad_update_def
      danger_zone_def night_clock_def falsy_str_def js_defs)

text \<open>
  Claim C6, amended. A request to \<^verbatim>\<open>POST /fences\<close> whose radius is absent,
  \<^verbatim>\<open>null\<close>, \<^verbatim>\<open>false\<close>, the number 0 or the empty string, or whose centre is
  absent, is rejected before any mutation: the store is left as it was, and the answer is
  the 400 validation response for an authority and the 403 response of that endpoint for
  any other actor.
\<close>

theorem C6_create_rejects_falsy_radius_or_missing_center:
  assumes "fb_radius body \<in>
             {None, Some JNull, Some (JBool False), Some (JNum 0), Some (JStr [])} \<or>
           fb_center body = None"
  shows "create_fence st clk u body =
           (Inl (if userType u \<noteq> ''authority''
                 then Forbidden ''Access denied. Only authorities can create geo-fences.''
                 else BadRequest
                        ''Name, type, center coordinates, radius, and region are required''),
            st)"
  using assms by (auto simp: create_fence_def falsy_def)

theorem C6_create_rejects_witness:
  "fb_radius zero_radius_fence = Some (JNum 0) \<and> userType officer = ''authority'' \<and>
   create_fence example_db night_clock officer zero_radius_fence =
     (Inl (BadRequest ''Name, type, center coordinates, radius, and region are required''),
      example_db)"
proof -
  have zero: "fb_radius zero_radius_fence = Some (JNum 0)"
    by (simp add: zero_radius_fence_def)
  have role: "userType officer = ''authority''"
    by (simp add: officer_def)
  show ?thesis
    using C6_create_rejects_falsy_radius_or_missing_center
            [of zero_radius_fence example_db night_clock officer] zero role
    by simp
qed

section \<open>SOS alerts and the status of the tourist\<close>

lemma find_member: "x \<in> set xs \<Longrightarrow> P x \<Longrightarrow> \<exists>y. find P xs = Some y"
  by (cases "find P xs") (auto simp: find_None_iff)

lemma find_replaced:
  assumes "x \<in> set xs" and "P x" and "P y"
  shows "find P (update_first P (\<lambda>_. y) xs) = Some y"
proof -
  obtain z where "find P xs = Some z"
    using find_member [of x xs P] assms(1,2) by blast
  then show ?thesis
    using assms(3) by (subst find_update_first) simp_all
qed

lemma sos_created:
  assumes "sos st clk u body = (Inr a, st')"
  shows "\<exists>t. find (\<lambda>t. t_userId t = userId u) (tourists st) = Some t \<and>
             a_type a = ''sos'' \<and> a_status a = ''active'' \<and> a_touristId a = Some (t_id t) \<and>
             alerts st' = alerts st @ [a] \<and>
             tourists st' =
               update_first (\<lambda>x. t_id x = t_id t) (\<lambda>_. t\<lparr>t_status := ''emergency''\<rparr>)
                 (tourists st)"
  using assms
  by (auto simp: sos_def Let_def split: if_splits option.splits)

lemma sos_resolved:
  assumes "sos_update_status st u i ''resolved'' rnotes = (Inr b, st')"
  shows "a_type b = ''sos'' \<and> a_status b = ''resolved'' \<and>
         (case a_touristId b of
            None \<Rightarrow> tourists st' = tourists st
          | Some tid \<Rightarrow>
              tourists st' =
                update_first (\<lambda>t. t_id t = tid) (\<lambda>t. t\<lparr>t_status := ''active''\<rparr>) (tourists st))"
  using assms
  by (auto simp: sos_update_status_def Let_def find_Some_iff
           split: if_splits option.splits)

lemma sos_update_status_not_sos:
  assumes "\<forall>c \<in> set (alerts st). a_id c = i \<longrightarrow> a_type c \<noteq> ''sos''"
  shows "snd (sos_update_status st u i status rnotes) = st"
proof -
  have "find (\<lambda>a. a_id a = i \<and> a_type a = ''sos'') (alerts st) = None"
    using assms by (auto simp: find_None_iff)
  then show ?thesis
    by (simp add: sos_update_status_def)
qed

lemma alert_update_status_tourists:
  "tourists (snd (alert_update_status st clk u i status)) = tourists st"
  by (simp add: alert_update_status_def split: option.splits)

lemma dashboard_update_tourists:
  "tourists (snd (dashboard_update_alert_status st clk u i status)) = tourists st"
  by (simp add: dashboard_update_alert_status_def split: option.splits)


text \<open>
  What the two SOS endpoints do to the tourist: a successful SOS request stores an active
  SOS alert of the tourist and sets the tourist's status to emergency; resolving an SOS
  alert through the SOS endpoint sets the status of its tourist to active; and when the
  alert addressed is not an SOS alert, no status endpoint changes any tourist.
\<close>

lemma tourist_status_through_sos_endpoints:
  "(sos st clk u body = (Inr a, st1) \<longrightarrow>
      a_type a = ''sos'' \<and> a_status a = ''active'' \<and>
      (\<exists>t. find (\<lambda>x. t_userId x = userId u) (tourists st) = Some t \<and>
           a_touristId a = Some (t_id t) \<and>
           find (\<lambda>x. t_id x = t_id t) (tourists st1) = Some (t\<lparr>t_status := ''emergency''\<rparr>))) \<and>
   (sos_update_status st u i ''resolved'' rnotes = (Inr b, st2) \<and>
    a_touristId b = Some tid \<and> find (\<lambda>x. t_id x = tid) (tourists st) = Some t' \<longrightarrow>
      a_type b = ''sos'' \<and>
      find (\<lambda>x. t_id x = tid) (tourists st2) = Some (t'\<lparr>t_status := ''active''\<rparr>)) \<and>
   ((\<forall>c \<in> set (alerts st). a_id c = i \<longrightarrow> a_type c \<noteq> ''sos'') \<longrightarrow>
      tourists (snd (sos_update_status st u i status rnotes)) = tourists st \<and>
      tourists (snd (alert_update_status st clk u i status)) = tourists st \<and>
      tourists (snd (dashboard_update_alert_status st clk u i status)) = tourists st)"
proof (intro conjI impI)
  assume run: "sos st clk u body = (Inr a, st1)"
  then obtain t where t:
    "find (\<lambda>x. t_userId x = userId u) (tourists st) = Some t"
    "a_type a = ''sos''" "a_status a = ''active''" "a_touristId a = Some (t_id t)"
    "tourists st1 =
       update_first (\<lambda>x. t_id x = t_id t) (\<lambda>_. t\<lparr>t_status := ''emergency''\<rparr>) (tourists st)"
    using sos_created [OF run] by blast
  show "a_type a = ''sos''" and "a_status a = ''active''"
    using t by simp_all
  have "t \<in> set (tourists st)"
    using t(1) by (auto simp: find_Some_iff)
  then have "find (\<lambda>x. t_id x = t_id t) (tourists st1) = Some (t\<lparr>t_status := ''emergency''\<rparr>)"
    unfolding t(5) by (rule find_replaced) simp_all
  then show "\<exists>t. find (\<lambda>x. t_userId x = userId u) (tourists st) = Some t \<and>
      a_touristId a = Some (t_id t) \<and>
      find (\<lambda>x. t_id x = t_id t) (tourists st1) = Some (t\<lparr>t_status := ''emergency''\<rparr>)"
    using t by blast
next
  assume h: "sos_update_status st u i ''resolved'' rnotes = (Inr b, st2) \<and>
    a_touristId b = Some tid \<and> find (\<lambda>x. t_id x = tid) (tourists st) = Some t'"
  then have r: "a_type b = ''sos''"
    "tourists st2 =
       update_first (\<lambda>t. t_id t = tid) (\<lambda>t. t\<lparr>t_status := ''active''\<rparr>) (tourists st)"
    using sos_resolved [of st u i rnotes b st2] by simp_all
  show "a_type b = ''sos''"
    by (rule r(1))
  show "find (\<lambda>x. t_id x = tid) (tourists st2) = Some (t'\<lparr>t_status := ''active''\<rparr>)"
    unfolding r(2) using h by (subst find_update_first) simp_all
next
  assume h: "\<forall>c \<in> set (alerts st). a_id c = i \<longrightarrow> a_type c \<noteq> ''sos''"
  show "tourists (snd (sos_update_status st u i status rnotes)) = tourists st"
    by (simp add: sos_update_status_not_sos [OF h])
  show "tourists (snd (alert_update_status st clk u i status)) = tourists st"
    by (rule alert_update_status_tourists)
  show "tourists (snd (dashboard_update_alert_status st clk u i status)) = tourists st"
    by (rule dashboard_update_tourists)
qed


text \<open>
  Claim C7 at the two general status endpoints. The SOS request of the tourist of
  \<open>calm_db\<close> leads to \<open>after_sos_db\<close>: one active SOS alert, the tourist in
  emergency. An authority who resolves that alert through \<^verbatim>\<open>PUT /:id/status\<close> of
  the alert router or \<^verbatim>\<open>PUT /alerts/:id/status\<close> of the dashboard router gets the
  alert resolved and the tourist is still in emergency; through
  \<^verbatim>\<open>PUT /sos/:id/status\<close> the tourist is active again.
\<close>

theorem C7_general_endpoints_leave_emergency:
  "sos calm_db night_clock visitor sos_request = (Inr created_alert, after_sos_db) \<and>
   map a_type (alerts after_sos_db) = [''sos''] \<and>
   map t_status (tourists after_sos_db) = [''emergency''] \<and>
   map a_status
     (alerts (snd (alert_update_status after_sos_db night_clock officer 100 ''resolved''))) =
     [''resolved''] \<and>
   map t_status
     (tourists (snd (alert_update_status after_sos_db night_clock officer 100 ''resolved''))) =
     [''emergency''] \<and>
   map a_status
     (alerts (snd (dashboard_update_alert_status after_sos_db night_clock officer 100
                     ''resolved''))) =
     [''resolved''] \<and>
   map t_status
     (tourists (snd (dashboard_update_alert_status after_sos_db night_clock officer 100
                       ''resolved''))) =
     [''emergency''] \<and>
   map a_status (alerts (snd (sos_update_status after_sos_db officer 100 ''resolved'' None))) =
     [''resolved''] \<and>
   map t_status (tourists (snd (sos_update_status after_sos_db officer 100 ''resolved'' None))) =
     [''active'']"
proof -
  have run: "sos calm_db night_clock visitor sos_request = (Inr created_alert, after_sos_db)"
    by (simp add: sos_def calm_db_def example_db_def calm_tourist_def night_clock_def
        visitor_def sos_request_def created_alert_def after_sos_db_def falsy_str_def
        js_defs Let_def)
  have store: "alerts after_sos_db = [created_alert]"
    "tourists after_sos_db = [calm_tourist\<lparr>t_status := ''emergency''\<rparr>]"
    "authorities after_sos_db =
       [\<lparr>au_id = 70, au_userId = 7, au_isOnDuty = True,
         au_department = ''Police Department''\<rparr>]"
    by (simp_all add: after_sos_db_def calm_db_def example_db_def)
  have alert: "a_id created_alert = 100" "a_type created_alert = ''sos''"
    "a_touristId created_alert = Some 30"
    by (simp_all add: created_alert_def)
  have who: "userType officer = ''authority''" "userId officer = 7"
    by (simp_all add: officer_def)
  have tourist: "t_id calm_tourist = 30"
    by (simp add: calm_tourist_def)
  have general:
    "map a_status
       (alerts (snd (alert_update_status after_sos_db night_clock officer 100 ''resolved''))) =
       [''resolved'']"
    "map t_status
       (tourists (snd (alert_update_status after_sos_db night_clock officer 100 ''resolved''))) =
       [''emergency'']"
    by (simp_all add: alert_update_status_def store alert who)
  have dashboard:
    "map a_status
       (alerts (snd (dashboard_update_alert_status after_sos_db night_clock officer 100
                       ''resolved''))) =
       [''resolved'']"
    "map t_status
       (tourists (snd (dashboard_update_alert_status after_sos_db night_clock officer 100
                         ''resolved''))) =
       [''emergency'']"
    by (simp_all add: dashboard_update_alert_status_def store alert who)
  have sibling:
    "map a_status (alerts (snd (sos_update_status after_sos_db officer 100 ''resolved'' None))) =
       [''resolved'']"
    "map t_status (tourists (snd (sos_update_status after_sos_db officer 100 ''resolved'' None))) =
       [''active'']"
    by (simp_all add: sos_update_status_def store alert who tourist falsy_str_def Let_def)
  from run store alert general dashboard sibling show ?thesis
    by simp
qed

section \<open>Incident reports\<close>

lemma assignToAuthority_alerts: "alerts (snd (assignToAuthority st inc)) = alerts st"
  by (simp add: assignToAuthority_def Let_def split: list.splits)

lemma assignToAuthority_length:
  "length (incidents (snd (assignToAuthority st inc))) = length (incidents st)"
  by (simp add: assignToAuthority_def Let_def length_update_first split: list.splits)

lemma assignToAuthority_fields:
  "i_severity (fst (assignToAuthority st inc)) = i_severity inc \<and>
   i_title (fst (assignToAuthority st inc)) = i_title inc \<and>
   i_reporterId (fst (assignToAuthority st inc)) = i_reporterId inc \<and>
   i_location (fst (assignToAuthority st inc)) = i_location inc"
  by (simp add: assignToAuthority_def Let_def split: list.splits)

text \<open>
  Claim C8. A successful incident report adds exactly one incident and exactly one alert
  to the store; the alert has type incident and status active, the severity of the
  incident, the message "Incident reported: " followed by the incident's title, and the
  reporter and location of the incident.
\<close>

theorem C8_incident_creates_one_alert:
  assumes "report_incident st clk u body = (Inr (inc, al), st')"
  shows "alerts st' = alerts st @ [al] \<and>
         length (incidents st') = length (incidents st) + 1 \<and>
         a_type al = ''incident'' \<and> a_status al = ''active'' \<and>
         a_severity al = i_severity inc \<and>
         a_message al = ''Incident reported: '' @ i_title inc \<and>
         a_touristId al = Some (i_reporterId inc) \<and>
         a_location al = i_location inc"
  using assms
  by (auto simp: report_incident_def Let_def assignToAuthority_alerts
        assignToAuthority_length assignToAuthority_fields
      split: if_splits option.splits)

theorem C8_incident_witness:
  "report_incident calm_db night_clock visitor incident_request =
     (Inr (filed_incident, filed_alert), after_report_db) \<and>
   alerts calm_db = [] \<and> alerts after_report_db = [filed_alert] \<and>
   a_type filed_alert = ''incident'' \<and> a_status filed_alert = ''active'' \<and>
   a_severity filed_alert = ''high'' \<and> i_severity filed_incident = ''high'' \<and>
   a_message filed_alert = ''Incident reported: Theft''"
proof -
  have run: "report_incident calm_db night_clock visitor incident_request =
      (Inr (filed_incident, filed_alert), after_report_db)"
    by (simp add: report_incident_def assignToAuthority_def calm_db_def example_db_def
        calm_tourist_def night_clock_def visitor_def incident_request_def
        filed_incident_def filed_alert_def after_report_db_def falsy_str_def js_defs Let_def)
  have empty: "alerts calm_db = []"
    by (simp add: calm_db_def)
  have sev: "i_severity filed_incident = ''high''" and title: "i_title filed_incident = ''Theft''"
    by (simp_all add: filed_incident_def)
  show ?thesis
    using C8_incident_creates_one_alert [OF run] run empty sev title
    by simp
qed

end
